theory Spec2Isabelle
  imports Main "HOL-Library.Word"
begin

section \<open>The declarations of \<^verbatim>\<open>libp2p-ffi/libp2p_ffi.h\<close>\<close>

text \<open>
  The repository's only source file is a C header. It has no function bodies: what it
  contains are type definitions and prototypes, so the embedding is the header itself, one
  value per declaration, in the order of the file.

  A C type as the header writes it. \<open>TNamed\<close> is a use of a typedef name
  (\<^verbatim>\<open>MessageCallback callback\<close>), \<open>TStruct\<close> a use of a struct tag
  (\<^verbatim>\<open>struct P2PNode\<close>). \<^verbatim>\<open>const char *\<close> is \<open>TPtr (TConst TChar)\<close>: a
  pointer to constant characters.
\<close>

datatype ctype =
    TVoid
  | TBool
  | TChar
  | TUint8
  | TUint16
  | TUintptr
  | TStruct string
  | TNamed string
  | TConst ctype
  | TPtr ctype

text \<open>
  The three forms of declaration the header uses:
  \<^item> \<^verbatim>\<open>typedef struct TAG { fields } ALIAS;\<close>, or \<^verbatim>\<open>typedef struct TAG ALIAS;\<close>
    with no member list (\<open>None\<close>), which leaves the struct incomplete;
  \<^item> \<^verbatim>\<open>typedef RET ( *ALIAS)(PARAMS);\<close>, a function pointer type;
  \<^item> \<^verbatim>\<open>RET name(PARAMS);\<close>, a function prototype (\<^verbatim>\<open>(void)\<close> is the empty
    parameter list).
\<close>

datatype decl =
    StructTypedef string "(string \<times> ctype) list option" string
  | FnPtrTypedef string ctype "ctype list"
  | Prototype string ctype "(string \<times> ctype) list"

definition header :: "decl list" where
  "header =
    [ StructTypedef ''NodeInner'' None ''NodeInner'',
      StructTypedef ''P2PNode''
        (Some [(''inner'', TPtr (TStruct ''NodeInner''))]) ''P2PNode'',
      StructTypedef ''P2PMessage''
        (Some [(''peer_id'', TPtr (TConst TChar)),
               (''topic'', TPtr (TConst TChar)),
               (''data'', TPtr (TConst TChar)),
               (''data_len'', TUintptr)]) ''P2PMessage'',
      FnPtrTypedef ''MessageCallback'' TVoid [TPtr (TConst (TStruct ''P2PMessage''))],
      FnPtrTypedef ''PeerCallback'' TVoid [TPtr (TConst TChar), TBool],
      Prototype ''p2p_node_create'' (TPtr (TStruct ''P2PNode'')) [],
      Prototype ''p2p_node_destroy'' TVoid [(''node'', TPtr (TStruct ''P2PNode''))],
      Prototype ''p2p_node_initialize'' TBool [(''node'', TPtr (TStruct ''P2PNode''))],
      Prototype ''p2p_node_start_listening'' TBool
        [(''node'', TPtr (TStruct ''P2PNode'')), (''port'', TUint16)],
      Prototype ''p2p_node_join_room'' TBool
        [(''node'', TPtr (TStruct ''P2PNode'')), (''room_id'', TPtr (TConst TChar))],
      Prototype ''p2p_node_send_message'' TBool
        [(''node'', TPtr (TStruct ''P2PNode'')), (''data'', TPtr (TConst TUint8)),
         (''data_len'', TUintptr)],
      Prototype ''p2p_set_message_callback'' TVoid [(''callback'', TNamed ''MessageCallback'')],
      Prototype ''p2p_set_peer_callback'' TVoid [(''callback'', TNamed ''PeerCallback'')],
      Prototype ''p2p_send_history_sync'' TBool
        [(''node'', TPtr (TStruct ''P2PNode'')), (''entries_json'', TPtr (TConst TChar)),
         (''device_id'', TPtr (TConst TChar))],
      Prototype ''p2p_get_peer_id'' (TPtr (TConst TChar))
        [(''node'', TPtr (TStruct ''P2PNode''))],
      Prototype ''p2p_free_string'' TVoid [(''s'', TPtr TChar)],
      Prototype ''p2p_init_logging'' TVoid [] ]"

subsection \<open>Reading the header\<close>

record prototype =
  fn_name :: string
  fn_ret :: ctype
  fn_params :: "(string \<times> ctype) list"

text \<open>The functions a translation unit sees after including the header, in order.\<close>

fun prototypes :: "decl list \<Rightarrow> prototype list" where
  "prototypes [] = []"
| "prototypes (Prototype n r ps # ds) =
     \<lparr>fn_name = n, fn_ret = r, fn_params = ps\<rparr> # prototypes ds"
| "prototypes (StructTypedef t b a # ds) = prototypes ds"
| "prototypes (FnPtrTypedef a r ps # ds) = prototypes ds"

definition declared_functions :: "prototype list" where
  "declared_functions = prototypes header"

definition lookup_fn :: "string \<Rightarrow> prototype option" where
  "lookup_fn n = find (\<lambda>f. fn_name f = n) declared_functions"

definition param_names :: "prototype \<Rightarrow> string list" where
  "param_names f = map fst (fn_params f)"

definition param_types :: "prototype \<Rightarrow> ctype list" where
  "param_types f = map snd (fn_params f)"

text \<open>
  Every declaration of \<^verbatim>\<open>struct TAG\<close> in a header, in order: its member list, or
  \<open>None\<close> for a declaration that gives none.
\<close>

fun struct_decls :: "decl list \<Rightarrow> string \<Rightarrow> (string \<times> ctype) list option list" where
  "struct_decls [] tag = []"
| "struct_decls (StructTypedef t b a # ds) tag =
     (if t = tag then b # struct_decls ds tag else struct_decls ds tag)"
| "struct_decls (FnPtrTypedef a r ps # ds) tag = struct_decls ds tag"
| "struct_decls (Prototype n r ps # ds) tag = struct_decls ds tag"

text \<open>
  The member list of \<^verbatim>\<open>struct TAG\<close> at the end of the header: \<open>None\<close> when the header
  never mentions the tag; \<open>Some (Some fs)\<close> when one of its declarations defines the
  members, wherever it stands; \<open>Some None\<close> when the tag is declared and no declaration
  defines it, which leaves the type incomplete.
\<close>

definition struct_body :: "decl list \<Rightarrow> string \<Rightarrow> (string \<times> ctype) list option option" where
  "struct_body ds tag =
     (case struct_decls ds tag of
        [] \<Rightarrow> None
      | b # bs \<Rightarrow> (case find (\<lambda>d. d \<noteq> None) (b # bs) of None \<Rightarrow> Some None | Some d \<Rightarrow> Some d))"

text \<open>A struct that the header declares and never defines.\<close>

definition incomplete :: "string \<Rightarrow> bool" where
  "incomplete tag = (struct_body header tag = Some None)"

text \<open>
  What \<^verbatim>\<open>p->member\<close> has for a type when \<^verbatim>\<open>p\<close> points to \<^verbatim>\<open>struct TAG\<close>:
  member access needs a complete struct type, so an incomplete struct has no accessible
  member at all.
\<close>

definition member_type :: "string \<Rightarrow> string \<Rightarrow> ctype option" where
  "member_type tag m =
     (case struct_body header tag of
        Some (Some fs) \<Rightarrow> map_of fs m
      | Some None \<Rightarrow> None
      | None \<Rightarrow> None)"

text \<open>The signature behind a function pointer typedef: return type and parameter types.\<close>

fun fnptr_typedef :: "decl list \<Rightarrow> string \<Rightarrow> (ctype \<times> ctype list) option" where
  "fnptr_typedef [] alias = None"
| "fnptr_typedef (FnPtrTypedef a r ps # ds) alias =
     (if a = alias then Some (r, ps) else fnptr_typedef ds alias)"
| "fnptr_typedef (StructTypedef t b a # ds) alias = fnptr_typedef ds alias"
| "fnptr_typedef (Prototype n r ps # ds) alias = fnptr_typedef ds alias"

subsection \<open>Classifying types\<close>

text \<open>A string at this boundary is a pointer to characters, constant or not.\<close>

fun is_string :: "ctype \<Rightarrow> bool" where
  "is_string (TPtr TChar) = True"
| "is_string (TPtr (TConst TChar)) = True"
| "is_string t = False"

fun is_node_ptr :: "ctype \<Rightarrow> bool" where
  "is_node_ptr (TPtr (TStruct tag)) = (tag = ''P2PNode'')"
| "is_node_ptr t = False"

fun is_callback :: "ctype \<Rightarrow> bool" where
  "is_callback (TNamed a) = (fnptr_typedef header a \<noteq> None)"
| "is_callback t = False"

text \<open>
  The types a typedef name stands for: the struct behind a struct alias, the return and
  parameter types behind a function pointer alias. And the types of a struct's members.
\<close>

fun typedef_types :: "decl list \<Rightarrow> string \<Rightarrow> ctype list" where
  "typedef_types [] alias = []"
| "typedef_types (StructTypedef t b a # ds) alias =
     (if a = alias then [TStruct t] else typedef_types ds alias)"
| "typedef_types (FnPtrTypedef a r ps # ds) alias =
     (if a = alias then r # ps else typedef_types ds alias)"
| "typedef_types (Prototype n r ps # ds) alias = typedef_types ds alias"

definition member_types :: "string \<Rightarrow> ctype list" where
  "member_types tag =
     (case struct_body header tag of
        Some (Some fs) \<Rightarrow> map snd fs
      | Some None \<Rightarrow> []
      | None \<Rightarrow> [])"

text \<open>
  Whether a value of type \<open>t\<close> leads to a \<^verbatim>\<open>struct TAG\<close>: the type is that struct, or
  points to it, or is a typedef name for something that leads to it, or is a struct with
  a member that leads to it. The first argument bounds the number of typedef names and
  structs opened on the way; \<open>mentions_struct\<close> allows as many as the header has
  declarations, which is every chain without a repetition.
\<close>

fun reaches :: "nat \<Rightarrow> string \<Rightarrow> ctype \<Rightarrow> bool" where
  "reaches k tag (TConst t) = reaches k tag t"
| "reaches k tag (TPtr t) = reaches k tag t"
| "reaches 0 tag (TStruct t) = (t = tag)"
| "reaches (Suc k) tag (TStruct t) = (t = tag \<or> list_ex (reaches k tag) (member_types t))"
| "reaches 0 tag (TNamed a) = False"
| "reaches (Suc k) tag (TNamed a) = list_ex (reaches k tag) (typedef_types header a)"
| "reaches k tag t = False"

definition mentions_struct :: "string \<Rightarrow> ctype \<Rightarrow> bool" where
  "mentions_struct tag t = reaches (length header) tag t"

text \<open>Whether the word \<open>w\<close> occurs in a name.\<close>

fun has_word :: "string \<Rightarrow> string \<Rightarrow> bool" where
  "has_word w [] = (w = [])"
| "has_word w (c # cs) = (take (length w) (c # cs) = w \<or> has_word w cs)"

text \<open>
  The integer types that could carry an error code. The header uses three unsigned
  integer types; none of them is a return type (shown below).
\<close>

fun is_integer :: "ctype \<Rightarrow> bool" where
  "is_integer TUint8 = True"
| "is_integer TUint16 = True"
| "is_integer TUintptr = True"
| "is_integer t = False"

text \<open>
  The width of the fixed-width unsigned types (C11 7.20.1.1: \<^verbatim>\<open>uintN_t\<close> has exactly
  \<open>N\<close> bits and no padding). \<^verbatim>\<open>uintptr_t\<close> has the platform's pointer width, which the
  header does not fix.
\<close>

fun uint_bits :: "ctype \<Rightarrow> nat option" where
  "uint_bits TUint8 = Some 8"
| "uint_bits TUint16 = Some 16"
| "uint_bits t = None"

text \<open>The largest value an unsigned type of known width holds.\<close>

definition uint_max :: "ctype \<Rightarrow> nat option" where
  "uint_max t = map_option (\<lambda>n. 2 ^ n - 1) (uint_bits t)"

text \<open>
  A \<^verbatim>\<open>uint16_t\<close> argument is a 16-bit word; \<open>port_number\<close> reads the port it denotes.
  An integer argument outside the range is converted modulo \<open>2 ^ 16\<close> at the call
  (C11 6.3.1.3), which is what the numeral of a word does.
\<close>

type_synonym uint16_t = "16 word"

definition port_number :: "uint16_t \<Rightarrow> nat" where
  "port_number p = unat p"

definition as_port :: "nat \<Rightarrow> uint16_t" where
  "as_port n = of_nat n"

text \<open>
  Passing an argument of type \<open>a\<close> for a parameter of type \<open>p\<close> without a cast
  (C11 6.5.2.2 with 6.5.16.1): for pointers the pointed-to types agree and the
  parameter's pointee has every qualifier of the argument's, so a pointer to \<^verbatim>\<open>const\<close>
  data does not pass for a pointer to modifiable data; other types of this header pass
  when they are the same.
\<close>

fun pointee :: "ctype \<Rightarrow> ctype option" where
  "pointee (TPtr t) = Some t"
| "pointee t = None"

fun is_const :: "ctype \<Rightarrow> bool" where
  "is_const (TConst t) = True"
| "is_const t = False"

fun unqualified :: "ctype \<Rightarrow> ctype" where
  "unqualified (TConst t) = t"
| "unqualified t = t"

definition passable :: "ctype \<Rightarrow> ctype \<Rightarrow> bool" where
  "passable p a =
     (case pointee p of
        None \<Rightarrow> p = a
      | Some tp \<Rightarrow>
          (case pointee a of
             None \<Rightarrow> False
           | Some ta \<Rightarrow>
               unqualified tp = unqualified ta \<and> (if is_const ta then is_const tp else True)))"

text \<open>The cast \<^verbatim>\<open>(T * )\<close> applied to a \<^verbatim>\<open>const T *\<close>.\<close>

fun cast_away_const :: "ctype \<Rightarrow> ctype" where
  "cast_away_const (TPtr (TConst t)) = TPtr t"
| "cast_away_const t = t"

text \<open>The declared type of parameter \<open>x\<close> of function \<open>n\<close>.\<close>

definition param_type :: "string \<Rightarrow> string \<Rightarrow> ctype option" where
  "param_type n x = (case lookup_fn n of None \<Rightarrow> None | Some f \<Rightarrow> map_of (fn_params f) x)"

text \<open>
  The two ways of reporting an outcome that the specification names: a boolean, or a
  string pointer (null on failure).
\<close>

definition bool_or_string :: "ctype \<Rightarrow> bool" where
  "bool_or_string t = (t = TBool \<or> is_string t)"

text \<open>Whether a prototype has a parameter, or a return value, of a type satisfying \<open>P\<close>.\<close>

definition takes :: "(ctype \<Rightarrow> bool) \<Rightarrow> prototype \<Rightarrow> bool" where
  "takes P f = list_ex P (param_types f)"

definition returns :: "(ctype \<Rightarrow> bool) \<Rightarrow> prototype \<Rightarrow> bool" where
  "returns P f = P (fn_ret f)"

definition names_of :: "(prototype \<Rightarrow> bool) \<Rightarrow> string list" where
  "names_of P = map fn_name (filter P declared_functions)"

section \<open>The behaviour behind the header\<close>

text \<open>
  The header gives the twelve functions no bodies: the library that implements them is
  part of the repository but not of the sources at hand. This section writes down the
  two pieces of behaviour the specification states for it, the life cycle of a node and
  the two callback slots, and nothing more: what the networking stack does with an
  initialized node is a parameter.

  A \<^verbatim>\<open>struct P2PNode *\<close> is an address. The struct is the one of the header: a single
  pointer \<open>inner\<close> to the node's state, null (\<open>None\<close>) as long as there is none.
\<close>

type_synonym node_ptr = nat

record 'i P2PNode =
  inner :: "'i option"

text \<open>
  Modelled from the spec: the state of the process behind the interface, which the
  header does not show. It holds the nodes that were created and not yet destroyed, by
  address (with the next address to hand out), and "the two callback slots", one "per
  callback kind".
\<close>

record ('i, 'm, 'p) process =
  nodes :: "node_ptr \<Rightarrow> 'i P2PNode option"
  next_node :: node_ptr
  message_callback :: "'m option"
  peer_callback :: "'p option"

text \<open>
  Modelled from the spec: the process before any call. No node is live, no callback is
  registered; address 0 is the null pointer and is never handed out.
\<close>

definition initial_process :: "('i, 'm, 'p) process" where
  "initial_process =
     \<lparr>nodes = (\<lambda>p. None), next_node = 1, message_callback = None, peer_callback = None\<rparr>"

text \<open>
  Modelled from the spec: the networking stack, "the actual P2P node implementation",
  which is absent and whose "internal algorithms, retry behavior, or state machines" the
  specification leaves open. Each operation takes the node's state and answers with an
  outcome and the state after it; \<open>stack_init\<close> receives the current state of the node,
  if any, and answers with the state of the initialized node or with \<open>None\<close> on failure.
\<close>

record 'i stack =
  stack_init :: "'i option \<Rightarrow> 'i option"
  stack_listen :: "'i \<Rightarrow> uint16_t \<Rightarrow> bool \<times> 'i"
  stack_join :: "'i \<Rightarrow> string \<Rightarrow> bool \<times> 'i"
  stack_send :: "'i \<Rightarrow> 8 word list \<Rightarrow> bool \<times> 'i"
  stack_sync :: "'i \<Rightarrow> string \<Rightarrow> string \<Rightarrow> bool \<times> 'i"
  stack_peer_id :: "'i \<Rightarrow> string option \<times> 'i"

text \<open>
  Modelled from the spec: a node is usable between a successful \<^verbatim>\<open>p2p_node_initialize\<close>
  and \<^verbatim>\<open>p2p_node_destroy\<close>, that is, when its address is live and its \<open>inner\<close> pointer
  is set.
\<close>

definition initialized :: "('i, 'm, 'p) process \<Rightarrow> node_ptr \<Rightarrow> bool" where
  "initialized st p =
     (case nodes st p of None \<Rightarrow> False | Some n \<Rightarrow> (case inner n of None \<Rightarrow> False | Some i \<Rightarrow> True))"

text \<open>
  Modelled from the spec: the guard shared by the node operations, "calling any node
  operation before initialize or after destroy is rejected rather than causing undefined
  access". On an address that is not live, or a node without state, the call answers with
  its failure value and touches nothing; otherwise the stack runs on the node's state.
\<close>

definition on_node ::
  "('i, 'm, 'p) process \<Rightarrow> node_ptr \<Rightarrow> 'r \<Rightarrow> ('i \<Rightarrow> 'r \<times> 'i) \<Rightarrow> 'r \<times> ('i, 'm, 'p) process" where
  "on_node st p failure f =
     (case nodes st p of
        None \<Rightarrow> (failure, st)
      | Some n \<Rightarrow>
          (case inner n of
             None \<Rightarrow> (failure, st)
           | Some i \<Rightarrow>
               (fst (f i), st\<lparr>nodes := (nodes st)(p \<mapsto> n\<lparr>inner := Some (snd (f i))\<rparr>)\<rparr>)))"

text \<open>
  Modelled from the spec: \<^verbatim>\<open>p2p_node_create\<close>, "create a node". The new node has no
  state yet: "create before any other operation".
\<close>

definition p2p_node_create :: "('i, 'm, 'p) process \<Rightarrow> node_ptr \<times> ('i, 'm, 'p) process" where
  "p2p_node_create st =
     (next_node st,
      st\<lparr>nodes := (nodes st)(next_node st \<mapsto> \<lparr>inner = None\<rparr>), next_node := Suc (next_node st)\<rparr>)"

text \<open>
  Modelled from the spec: \<^verbatim>\<open>p2p_node_destroy\<close>, "destroy a node". The address stops
  being live: "never use after destroy".
\<close>

definition p2p_node_destroy :: "('i, 'm, 'p) process \<Rightarrow> node_ptr \<Rightarrow> ('i, 'm, 'p) process" where
  "p2p_node_destroy st p = st\<lparr>nodes := (nodes st)(p := None)\<rparr>"

text \<open>
  Modelled from the spec: \<^verbatim>\<open>p2p_node_initialize\<close>, "initialize it", with success or
  failure "reported as a boolean". Rejected on an address that is not live; on a live
  node the stack decides, and success stores the node's state.
\<close>

definition p2p_node_initialize ::
  "'i stack \<Rightarrow> ('i, 'm, 'p) process \<Rightarrow> node_ptr \<Rightarrow> bool \<times> ('i, 'm, 'p) process" where
  "p2p_node_initialize stk st p =
     (case nodes st p of
        None \<Rightarrow> (False, st)
      | Some n \<Rightarrow>
          (case stack_init stk (inner n) of
             None \<Rightarrow> (False, st)
           | Some i \<Rightarrow> (True, st\<lparr>nodes := (nodes st)(p \<mapsto> n\<lparr>inner := Some i\<rparr>)\<rparr>)))"

text \<open>Modelled from the spec: \<^verbatim>\<open>p2p_node_start_listening\<close>, "start listening on a port".\<close>

definition p2p_node_start_listening ::
  "'i stack \<Rightarrow> ('i, 'm, 'p) process \<Rightarrow> node_ptr \<Rightarrow> uint16_t \<Rightarrow> bool \<times> ('i, 'm, 'p) process" where
  "p2p_node_start_listening stk st p port = on_node st p False (\<lambda>i. stack_listen stk i port)"

text \<open>Modelled from the spec: \<^verbatim>\<open>p2p_node_join_room\<close>, "join a room (topic) by identifier".\<close>

definition p2p_node_join_room ::
  "'i stack \<Rightarrow> ('i, 'm, 'p) process \<Rightarrow> node_ptr \<Rightarrow> string \<Rightarrow> bool \<times> ('i, 'm, 'p) process" where
  "p2p_node_join_room stk st p room_id = on_node st p False (\<lambda>i. stack_join stk i room_id)"

text \<open>
  Modelled from the spec: \<^verbatim>\<open>p2p_node_send_message\<close>, "send a message"; the buffer and
  its length arrive as the list of bytes.
\<close>

definition p2p_node_send_message ::
  "'i stack \<Rightarrow> ('i, 'm, 'p) process \<Rightarrow> node_ptr \<Rightarrow> 8 word list \<Rightarrow> bool \<times> ('i, 'm, 'p) process" where
  "p2p_node_send_message stk st p data = on_node st p False (\<lambda>i. stack_send stk i data)"

text \<open>
  Modelled from the spec: \<^verbatim>\<open>p2p_send_history_sync\<close>, "send a history-synchronization
  payload (as an encoded string) tagged with a device identifier".
\<close>

definition p2p_send_history_sync ::
  "'i stack \<Rightarrow> ('i, 'm, 'p) process \<Rightarrow> node_ptr \<Rightarrow> string \<Rightarrow> string
     \<Rightarrow> bool \<times> ('i, 'm, 'p) process" where
  "p2p_send_history_sync stk st p entries_json device_id =
     on_node st p False (\<lambda>i. stack_sync stk i entries_json device_id)"

text \<open>
  Modelled from the spec: \<^verbatim>\<open>p2p_get_peer_id\<close>, "retrieve the node's peer identifier",
  a "nullable string": \<open>None\<close> is the null pointer.
\<close>

definition p2p_get_peer_id ::
  "'i stack \<Rightarrow> ('i, 'm, 'p) process \<Rightarrow> node_ptr \<Rightarrow> string option \<times> ('i, 'm, 'p) process" where
  "p2p_get_peer_id stk st p = on_node st p None (stack_peer_id stk)"

text \<open>
  The six node operations as one call, so that a statement can range over all of them,
  and their two kinds of result.
\<close>

datatype node_call =
    Initialize
  | StartListening uint16_t
  | JoinRoom string
  | SendMessage "8 word list"
  | SendHistorySync string string
  | GetPeerId

datatype outcome = Flag bool | Str "string option"

fun call ::
  "'i stack \<Rightarrow> ('i, 'm, 'p) process \<Rightarrow> node_ptr \<Rightarrow> node_call \<Rightarrow> outcome \<times> ('i, 'm, 'p) process" where
  "call stk st p Initialize = map_prod Flag id (p2p_node_initialize stk st p)"
| "call stk st p (StartListening port) = map_prod Flag id (p2p_node_start_listening stk st p port)"
| "call stk st p (JoinRoom room_id) = map_prod Flag id (p2p_node_join_room stk st p room_id)"
| "call stk st p (SendMessage data) = map_prod Flag id (p2p_node_send_message stk st p data)"
| "call stk st p (SendHistorySync entries_json device_id) =
     map_prod Flag id (p2p_send_history_sync stk st p entries_json device_id)"
| "call stk st p GetPeerId = map_prod Str id (p2p_get_peer_id stk st p)"

text \<open>The failure value of each call: \<^verbatim>\<open>false\<close>, or the null pointer for the string.\<close>

fun failure :: "node_call \<Rightarrow> outcome" where
  "failure GetPeerId = Str None"
| "failure c = Flag False"

fun rejected :: "outcome \<Rightarrow> bool" where
  "rejected (Flag b) = (\<not> b)"
| "rejected (Str s) = (s = None)"

text \<open>A stack on which every operation succeeds, with no state of its own.\<close>

definition always_up :: "unit stack" where
  "always_up =
     \<lparr>stack_init = (\<lambda>i. Some ()),
      stack_listen = (\<lambda>i port. (True, i)),
      stack_join = (\<lambda>i room_id. (True, i)),
      stack_send = (\<lambda>i data. (True, i)),
      stack_sync = (\<lambda>i entries_json device_id. (True, i)),
      stack_peer_id = (\<lambda>i. (Some ''peer'', i))\<rparr>"

subsection \<open>Callback registration\<close>

text \<open>
  Modelled from the spec: \<^verbatim>\<open>p2p_set_message_callback\<close>, "register a message callback".
  It fills the one slot of its kind: "registering a callback replaces any prior
  registration rather than accumulating handlers".
\<close>

definition p2p_set_message_callback :: "'m \<Rightarrow> ('i, 'm, 'p) process \<Rightarrow> ('i, 'm, 'p) process" where
  "p2p_set_message_callback callback st = st\<lparr>message_callback := Some callback\<rparr>"

text \<open>
  Modelled from the spec: \<^verbatim>\<open>p2p_set_peer_callback\<close>, "register a peer callback", on the
  slot of the other kind.
\<close>

definition p2p_set_peer_callback :: "'p \<Rightarrow> ('i, 'm, 'p) process \<Rightarrow> ('i, 'm, 'p) process" where
  "p2p_set_peer_callback callback st = st\<lparr>peer_callback := Some callback\<rparr>"

text \<open>
  Modelled from the spec: the handlers that a received message, and a peer event, are
  delivered to, namely what the slot of that kind holds.
\<close>

definition message_handlers :: "('i, 'm, 'p) process \<Rightarrow> 'm list" where
  "message_handlers st = (case message_callback st of None \<Rightarrow> [] | Some f \<Rightarrow> [f])"

definition peer_handlers :: "('i, 'm, 'p) process \<Rightarrow> 'p list" where
  "peer_handlers st = (case peer_callback st of None \<Rightarrow> [] | Some f \<Rightarrow> [f])"

text \<open>A sequence of registration calls, of either kind, run in order.\<close>

datatype ('m, 'p) registration = SetMessage 'm | SetPeer 'p

fun register :: "('m, 'p) registration \<Rightarrow> ('i, 'm, 'p) process \<Rightarrow> ('i, 'm, 'p) process" where
  "register (SetMessage f) st = p2p_set_message_callback f st"
| "register (SetPeer f) st = p2p_set_peer_callback f st"

fun register_all :: "('m, 'p) registration list \<Rightarrow> ('i, 'm, 'p) process \<Rightarrow> ('i, 'm, 'p) process" where
  "register_all [] st = st"
| "register_all (r # rs) st = register_all rs (register r st)"

text \<open>The callback of the last registration of each kind in a sequence, if there is one.\<close>

fun last_message :: "('m, 'p) registration list \<Rightarrow> 'm option" where
  "last_message [] = None"
| "last_message (SetMessage f # rs) =
     (case last_message rs of None \<Rightarrow> Some f | Some g \<Rightarrow> Some g)"
| "last_message (SetPeer f # rs) = last_message rs"

fun last_peer :: "('m, 'p) registration list \<Rightarrow> 'p option" where
  "last_peer [] = None"
| "last_peer (SetPeer f # rs) =
     (case last_peer rs of None \<Rightarrow> Some f | Some g \<Rightarrow> Some g)"
| "last_peer (SetMessage f # rs) = last_peer rs"

subsection \<open>Sessions\<close>

text \<open>
  What a caller does with the interface over time is a sequence of calls, and what it
  sees is the value each call returns. \<^verbatim>\<open>p2p_free_string\<close> and \<^verbatim>\<open>p2p_init_logging\<close>
  touch neither the nodes nor the callback slots and are left out.
\<close>

datatype ('m, 'p) event =
    Create
  | Destroy node_ptr
  | NodeCall node_ptr node_call
  | Register "('m, 'p) registration"

datatype reply = Created node_ptr | Destroyed | Returned outcome | Registered

fun step ::
  "'i stack \<Rightarrow> ('i, 'm, 'p) process \<Rightarrow> ('m, 'p) event \<Rightarrow> reply \<times> ('i, 'm, 'p) process" where
  "step stk st Create = map_prod Created id (p2p_node_create st)"
| "step stk st (Destroy p) = (Destroyed, p2p_node_destroy st p)"
| "step stk st (NodeCall p c) = map_prod Returned id (call stk st p c)"
| "step stk st (Register r) = (Registered, register r st)"

text \<open>
  Running a sequence of calls from a state gives the log, each call with what it
  returned, and the state after the last one.
\<close>

fun run ::
  "'i stack \<Rightarrow> ('i, 'm, 'p) process \<Rightarrow> ('m, 'p) event list
     \<Rightarrow> (('m, 'p) event \<times> reply) list \<times> ('i, 'm, 'p) process" where
  "run stk st [] = ([], st)"
| "run stk st (e # es) =
     ((e, fst (step stk st e)) # fst (run stk (snd (step stk st e)) es),
      snd (run stk (snd (step stk st e)) es))"

text \<open>A session is a run from the start of the process.\<close>

definition session ::
  "'i stack \<Rightarrow> ('m, 'p) event list \<Rightarrow> (('m, 'p) event \<times> reply) list \<times> ('i, 'm, 'p) process" where
  "session stk es = run stk initial_process es"

text \<open>
  Two facts about the past of an address, read off the log: \<^verbatim>\<open>p2p_node_initialize\<close>
  has succeeded on it, that is, some call of it on that address returned true; and the
  address is a destroyed node, that is, \<^verbatim>\<open>p2p_node_create\<close> returned it and a later
  call of \<^verbatim>\<open>p2p_node_destroy\<close> was made on it.
\<close>

definition initialize_succeeded :: "(('m, 'p) event \<times> reply) list \<Rightarrow> node_ptr \<Rightarrow> bool" where
  "initialize_succeeded log p = ((NodeCall p Initialize, Returned (Flag True)) \<in> set log)"

fun destroyed :: "(('m, 'p) event \<times> reply) list \<Rightarrow> node_ptr \<Rightarrow> bool" where
  "destroyed [] p = False"
| "destroyed (x # log) p =
     ((snd x = Created p \<and> (Destroy p, Destroyed) \<in> set log) \<or> destroyed log p)"

text \<open>
  Three sessions with one node: it is created and a room is joined before any
  initialization; it is created and initialized; it is created, initialized and destroyed.
\<close>

definition joined_early :: "(unit, unit) event list" where
  "joined_early = [Create, NodeCall 1 (JoinRoom ''lobby'')]"

definition started :: "(unit, unit) event list" where
  "started = [Create, NodeCall 1 Initialize]"

definition ended :: "(unit, unit) event list" where
  "ended = [Create, NodeCall 1 Initialize, Destroy 1]"

section \<open>Evaluating the header\<close>

lemma declared_functions_eq:
  "declared_functions =
    [ \<lparr>fn_name = ''p2p_node_create'', fn_ret = TPtr (TStruct ''P2PNode''), fn_params = []\<rparr>,
      \<lparr>fn_name = ''p2p_node_destroy'', fn_ret = TVoid,
        fn_params = [(''node'', TPtr (TStruct ''P2PNode''))]\<rparr>,
      \<lparr>fn_name = ''p2p_node_initialize'', fn_ret = TBool,
        fn_params = [(''node'', TPtr (TStruct ''P2PNode''))]\<rparr>,
      \<lparr>fn_name = ''p2p_node_start_listening'', fn_ret = TBool,
        fn_params = [(''node'', TPtr (TStruct ''P2PNode'')), (''port'', TUint16)]\<rparr>,
      \<lparr>fn_name = ''p2p_node_join_room'', fn_ret = TBool,
        fn_params = [(''node'', TPtr (TStruct ''P2PNode'')),
                     (''room_id'', TPtr (TConst TChar))]\<rparr>,
      \<lparr>fn_name = ''p2p_node_send_message'', fn_ret = TBool,
        fn_params = [(''node'', TPtr (TStruct ''P2PNode'')), (''data'', TPtr (TConst TUint8)),
                     (''data_len'', TUintptr)]\<rparr>,
      \<lparr>fn_name = ''p2p_set_message_callback'', fn_ret = TVoid,
        fn_params = [(''callback'', TNamed ''MessageCallback'')]\<rparr>,
      \<lparr>fn_name = ''p2p_set_peer_callback'', fn_ret = TVoid,
        fn_params = [(''callback'', TNamed ''PeerCallback'')]\<rparr>,
      \<lparr>fn_name = ''p2p_send_history_sync'', fn_ret = TBool,
        fn_params = [(''node'', TPtr (TStruct ''P2PNode'')),
                     (''entries_json'', TPtr (TConst TChar)),
                     (''device_id'', TPtr (TConst TChar))]\<rparr>,
      \<lparr>fn_name = ''p2p_get_peer_id'', fn_ret = TPtr (TConst TChar),
        fn_params = [(''node'', TPtr (TStruct ''P2PNode''))]\<rparr>,
      \<lparr>fn_name = ''p2p_free_string'', fn_ret = TVoid, fn_params = [(''s'', TPtr TChar)]\<rparr>,
      \<lparr>fn_name = ''p2p_init_logging'', fn_ret = TVoid, fn_params = []\<rparr> ]"
  by (simp add: declared_functions_def header_def)

lemma length_header:
  "length header =
     Suc (Suc (Suc (Suc (Suc (Suc (Suc (Suc (Suc (Suc (Suc (Suc (Suc (Suc (Suc (Suc (Suc 0))))))))))))))))"
  by (simp add: header_def)

lemma member_types_P2PNode: "member_types ''P2PNode'' = [TPtr (TStruct ''NodeInner'')]"
  by (simp add: member_types_def struct_body_def header_def)

lemma member_types_P2PMessage:
  "member_types ''P2PMessage'' =
     [TPtr (TConst TChar), TPtr (TConst TChar), TPtr (TConst TChar), TUintptr]"
  by (simp add: member_types_def struct_body_def header_def)

lemma typedef_types_MessageCallback:
  "typedef_types header ''MessageCallback'' = [TVoid, TPtr (TConst (TStruct ''P2PMessage''))]"
  by (simp add: header_def)

lemma typedef_types_PeerCallback:
  "typedef_types header ''PeerCallback'' = [TVoid, TPtr (TConst TChar), TBool]"
  by (simp add: header_def)

lemma is_callback_MessageCallback: "is_callback (TNamed ''MessageCallback'')"
  by (simp add: header_def)

lemma is_callback_PeerCallback: "is_callback (TNamed ''PeerCallback'')"
  by (simp add: header_def)

text \<open>
  C1. The header declares exactly twelve functions, with pairwise different names; their
  names and parameter lists, in the order of the file, are the ones below, and
  \<^verbatim>\<open>p2p_get_peer_id\<close> returns a string. (The header calls \<open>callback\<close> what the
  specification abbreviates as \<open>cb\<close>, and \<open>data_len\<close> what it abbreviates as \<open>len\<close>.)
\<close>

theorem interface_is_twelve_functions:
  "map (\<lambda>f. (fn_name f, param_names f)) declared_functions =
     [ (''p2p_node_create'', []),
       (''p2p_node_destroy'', [''node'']),
       (''p2p_node_initialize'', [''node'']),
       (''p2p_node_start_listening'', [''node'', ''port'']),
       (''p2p_node_join_room'', [''node'', ''room_id'']),
       (''p2p_node_send_message'', [''node'', ''data'', ''data_len'']),
       (''p2p_set_message_callback'', [''callback'']),
       (''p2p_set_peer_callback'', [''callback'']),
       (''p2p_send_history_sync'', [''node'', ''entries_json'', ''device_id'']),
       (''p2p_get_peer_id'', [''node'']),
       (''p2p_free_string'', [''s'']),
       (''p2p_init_logging'', []) ]
   \<and> length declared_functions = 12
   \<and> distinct (map fn_name declared_functions)
   \<and> map_option (\<lambda>f. is_string (fn_ret f)) (lookup_fn ''p2p_get_peer_id'') = Some True"
  by (simp add: declared_functions_eq lookup_fn_def param_names_def)

text \<open>
  C2, as stated, fails: \<^verbatim>\<open>p2p_node_destroy\<close> is declared \<^verbatim>\<open>void\<close>, which is neither
  \<^verbatim>\<open>bool\<close> nor a string pointer.
\<close>

theorem return_bool_or_string_counterexample:
  "map_option fn_ret (lookup_fn ''p2p_node_destroy'') = Some TVoid \<and> \<not> bool_or_string TVoid"
  by (simp add: declared_functions_eq lookup_fn_def bool_or_string_def)

text \<open>
  C2, amended. The return types of the twelve functions fall into four groups: five
  functions return \<^verbatim>\<open>bool\<close>, \<^verbatim>\<open>p2p_get_peer_id\<close> returns a string pointer,
  \<^verbatim>\<open>p2p_node_create\<close> returns a node pointer, and five functions return \<^verbatim>\<open>void\<close> and
  so report nothing. No function returns an integer, so there is no error code.
\<close>

theorem return_types_of_interface:
  "names_of (returns (\<lambda>t. t = TBool)) =
     [''p2p_node_initialize'', ''p2p_node_start_listening'', ''p2p_node_join_room'',
      ''p2p_node_send_message'', ''p2p_send_history_sync'']
   \<and> names_of (returns is_string) = [''p2p_get_peer_id'']
   \<and> names_of (returns is_node_ptr) = [''p2p_node_create'']
   \<and> names_of (returns (\<lambda>t. t = TVoid)) =
     [''p2p_node_destroy'', ''p2p_set_message_callback'', ''p2p_set_peer_callback'',
      ''p2p_free_string'', ''p2p_init_logging'']
   \<and> names_of (returns is_integer) = []
   \<and> names_of (returns bool_or_string) =
     [''p2p_node_initialize'', ''p2p_node_start_listening'', ''p2p_node_join_room'',
      ''p2p_node_send_message'', ''p2p_send_history_sync'', ''p2p_get_peer_id'']"
  by (simp add: names_of_def returns_def declared_functions_eq bool_or_string_def)

text \<open>
  C5, as stated, fails: the handle that \<^verbatim>\<open>p2p_node_create\<close> returns points to a
  \<^verbatim>\<open>struct P2PNode\<close>, and the header defines that struct in full. Its member \<open>inner\<close>
  is accessible, so a caller can read and overwrite the node's pointer to its state
  without going through any declared function.
\<close>

theorem node_handle_not_opaque_counterexample:
  "map_option fn_ret (lookup_fn ''p2p_node_create'') = Some (TPtr (TStruct ''P2PNode''))
   \<and> \<not> incomplete ''P2PNode''
   \<and> member_type ''P2PNode'' ''inner'' = Some (TPtr (TStruct ''NodeInner''))"
  by (simp add: lookup_fn_def declared_functions_eq incomplete_def member_type_def
      struct_body_def header_def)

text \<open>
  C5, amended. \<^verbatim>\<open>struct NodeInner\<close> is declared once, without a member list, and no
  declaration of the header defines it: it is incomplete, and no member of it can be
  named by a caller. The handle \<^verbatim>\<open>struct P2PNode\<close> is a complete struct whose only
  member is the pointer \<open>inner\<close> to a \<^verbatim>\<open>NodeInner\<close>. No prototype names \<^verbatim>\<open>NodeInner\<close>
  itself; the declared functions whose signature leads to it are the eight that take or
  return a node, \<^verbatim>\<open>p2p_node_create\<close> returning one and the seven others taking one.
\<close>

theorem node_inner_is_opaque:
  "struct_decls header ''NodeInner'' = [None]
   \<and> incomplete ''NodeInner''
   \<and> (\<forall>m. member_type ''NodeInner'' m = None)
   \<and> struct_body header ''P2PNode'' = Some (Some [(''inner'', TPtr (TStruct ''NodeInner''))])
   \<and> map (reaches 0 ''NodeInner'') (member_types ''P2PNode'') = [True]
   \<and> names_of (\<lambda>f. takes (reaches 0 ''NodeInner'') f \<or> returns (reaches 0 ''NodeInner'') f) = []
   \<and> names_of (\<lambda>f. takes (mentions_struct ''NodeInner'') f
                  \<or> returns (mentions_struct ''NodeInner'') f) =
     [''p2p_node_create'', ''p2p_node_destroy'', ''p2p_node_initialize'',
      ''p2p_node_start_listening'', ''p2p_node_join_room'', ''p2p_node_send_message'',
      ''p2p_send_history_sync'', ''p2p_get_peer_id'']
   \<and> names_of (takes is_node_ptr) =
     [''p2p_node_destroy'', ''p2p_node_initialize'', ''p2p_node_start_listening'',
      ''p2p_node_join_room'', ''p2p_node_send_message'', ''p2p_send_history_sync'',
      ''p2p_get_peer_id'']
   \<and> names_of (returns is_node_ptr) = [''p2p_node_create'']"
proof -
  have inner: "struct_decls header ''NodeInner'' = [None]" "incomplete ''NodeInner''"
    "member_type ''NodeInner'' m = None" for m
    by (simp_all add: incomplete_def member_type_def struct_body_def header_def)
  have handle:
    "struct_body header ''P2PNode'' = Some (Some [(''inner'', TPtr (TStruct ''NodeInner''))])"
    "map (reaches 0 ''NodeInner'') (member_types ''P2PNode'') = [True]"
    by (simp_all add: member_types_P2PNode) (simp add: struct_body_def header_def)
  have direct:
    "names_of (\<lambda>f. takes (reaches 0 ''NodeInner'') f \<or> returns (reaches 0 ''NodeInner'') f) = []"
    by (simp add: names_of_def takes_def returns_def param_types_def declared_functions_eq)
  have through:
    "names_of (\<lambda>f. takes (mentions_struct ''NodeInner'') f
                  \<or> returns (mentions_struct ''NodeInner'') f) =
     [''p2p_node_create'', ''p2p_node_destroy'', ''p2p_node_initialize'',
      ''p2p_node_start_listening'', ''p2p_node_join_room'', ''p2p_node_send_message'',
      ''p2p_send_history_sync'', ''p2p_get_peer_id'']"
    by (simp add: names_of_def takes_def returns_def param_types_def declared_functions_eq
        mentions_struct_def length_header member_types_P2PNode member_types_P2PMessage
        typedef_types_MessageCallback typedef_types_PeerCallback)
  have nodes:
    "names_of (takes is_node_ptr) =
     [''p2p_node_destroy'', ''p2p_node_initialize'', ''p2p_node_start_listening'',
      ''p2p_node_join_room'', ''p2p_node_send_message'', ''p2p_send_history_sync'',
      ''p2p_get_peer_id'']"
    "names_of (returns is_node_ptr) = [''p2p_node_create'']"
    by (simp_all add: names_of_def takes_def returns_def param_types_def declared_functions_eq)
  from inner handle direct through nodes show ?thesis
    by blast
qed

text \<open>
  C6. \<^verbatim>\<open>struct P2PMessage\<close> has exactly four members, in this order: the peer
  identifier and the topic, both strings; the payload, a pointer to constant bytes
  (\<^verbatim>\<open>const char *\<close>); and the payload's length, a \<^verbatim>\<open>uintptr_t\<close>. The message callback
  returns nothing and receives one argument, a pointer to a constant \<^verbatim>\<open>P2PMessage\<close>.
\<close>

theorem message_has_four_parts:
  "map_option (map_option (map fst)) (struct_body header ''P2PMessage'') =
     Some (Some [''peer_id'', ''topic'', ''data'', ''data_len''])
   \<and> map_option is_string (member_type ''P2PMessage'' ''peer_id'') = Some True
   \<and> map_option is_string (member_type ''P2PMessage'' ''topic'') = Some True
   \<and> member_type ''P2PMessage'' ''data'' = Some (TPtr (TConst TChar))
   \<and> member_type ''P2PMessage'' ''data_len'' = Some TUintptr
   \<and> fnptr_typedef header ''MessageCallback'' =
       Some (TVoid, [TPtr (TConst (TStruct ''P2PMessage''))])"
  by (simp add: member_type_def struct_body_def header_def)

text \<open>
  C8, as stated, fails: \<^verbatim>\<open>p2p_get_peer_id\<close> returns \<^verbatim>\<open>const char *\<close> and the parameter
  of \<^verbatim>\<open>p2p_free_string\<close> is \<^verbatim>\<open>char *\<close>, so the returned pointer does not pass for that
  parameter: the call would discard the \<^verbatim>\<open>const\<close> qualifier.
\<close>

theorem peer_id_to_free_string_counterexample:
  "map_option fn_ret (lookup_fn ''p2p_get_peer_id'') = Some (TPtr (TConst TChar))
   \<and> map_option param_types (lookup_fn ''p2p_free_string'') = Some [TPtr TChar]
   \<and> \<not> passable (TPtr TChar) (TPtr (TConst TChar))"
  by (simp add: lookup_fn_def param_types_def declared_functions_eq passable_def)

text \<open>
  C8, amended. \<^verbatim>\<open>p2p_get_peer_id\<close> is the only declared function that returns a string,
  and \<^verbatim>\<open>p2p_free_string\<close> the only one that takes a pointer to modifiable characters.
  Both point to \<^verbatim>\<open>char\<close>: once \<^verbatim>\<open>const\<close> is cast away, the returned pointer passes for
  the parameter of \<^verbatim>\<open>p2p_free_string\<close>.
\<close>

theorem peer_id_freed_after_cast:
  "names_of (returns is_string) = [''p2p_get_peer_id'']
   \<and> names_of (takes (\<lambda>t. t = TPtr TChar)) = [''p2p_free_string'']
   \<and> map_option (cast_away_const \<circ> fn_ret) (lookup_fn ''p2p_get_peer_id'') = Some (TPtr TChar)
   \<and> map_option param_types (lookup_fn ''p2p_free_string'') = Some [TPtr TChar]
   \<and> passable (TPtr TChar) (cast_away_const (TPtr (TConst TChar)))"
  by (simp add: lookup_fn_def names_of_def takes_def returns_def param_types_def
      declared_functions_eq passable_def)

text \<open>
  C9. The \<open>port\<close> parameter of \<^verbatim>\<open>p2p_node_start_listening\<close> is a \<^verbatim>\<open>uint16_t\<close>, whose
  largest value is 65535: every port the function can receive is at most 65535, 65535
  itself can be passed, and an attempt to pass 65536 arrives as 0.
\<close>

theorem port_is_16_bit:
  "param_type ''p2p_node_start_listening'' ''port'' = Some TUint16
   \<and> uint_max TUint16 = Some 65535
   \<and> (\<forall>p. port_number p \<le> 65535)
   \<and> port_number (as_port 65535) = 65535
   \<and> port_number (as_port 65536) = 0"
proof -
  have range: "port_number p \<le> 65535" for p
  proof -
    have "unat p < 2 ^ LENGTH(16)"
      by (rule unsigned_less)
    then show ?thesis
      by (simp add: port_number_def)
  qed
  have decl: "param_type ''p2p_node_start_listening'' ''port'' = Some TUint16"
    by (simp add: param_type_def lookup_fn_def declared_functions_eq)
  have top: "uint_max TUint16 = Some 65535"
    by (simp add: uint_max_def)
  have ends: "port_number (as_port 65535) = 65535" "port_number (as_port 65536) = 0"
    by (simp_all add: port_number_def as_port_def)
  from range decl top ends show ?thesis by blast
qed

text \<open>
  C10. \<^verbatim>\<open>p2p_node_send_message\<close> has three parameters: the node, a pointer to constant
  bytes and a length. None of them is a string, so the call names no room and no topic,
  although a received \<^verbatim>\<open>P2PMessage\<close> has a \<open>topic\<close> member. The only declared function
  with a parameter called \<open>room_id\<close> or \<open>topic\<close> is \<^verbatim>\<open>p2p_node_join_room\<close>.
\<close>

theorem send_message_has_no_topic:
  "map_option fn_params (lookup_fn ''p2p_node_send_message'') =
     Some [(''node'', TPtr (TStruct ''P2PNode'')), (''data'', TPtr (TConst TUint8)),
           (''data_len'', TUintptr)]
   \<and> map_option (takes is_string) (lookup_fn ''p2p_node_send_message'') = Some False
   \<and> param_type ''p2p_node_send_message'' ''topic'' = None
   \<and> param_type ''p2p_node_send_message'' ''room_id'' = None
   \<and> member_type ''P2PMessage'' ''topic'' = Some (TPtr (TConst TChar))
   \<and> names_of (\<lambda>f. ''room_id'' \<in> set (param_names f) \<or> ''topic'' \<in> set (param_names f)) =
       [''p2p_node_join_room'']"
  by (simp add: lookup_fn_def param_type_def takes_def param_types_def param_names_def
      names_of_def declared_functions_eq member_type_def struct_body_def)
    (simp add: header_def)

section \<open>The node life cycle and the callback slots\<close>

lemma on_node_rejects:
  "\<not> initialized st p \<Longrightarrow> on_node st p r f = (r, st)"
  by (simp add: initialized_def on_node_def split: option.splits)

lemma call_rejects:
  assumes "c \<noteq> Initialize" and "\<not> initialized st p"
  shows "call stk st p c = (failure c, st)"
  using assms
  by (cases c)
    (simp_all add: on_node_rejects p2p_node_start_listening_def p2p_node_join_room_def
      p2p_node_send_message_def p2p_send_history_sync_def p2p_get_peer_id_def)

lemma initialize_rejects_dead:
  "nodes st p = None \<Longrightarrow> p2p_node_initialize stk st p = (False, st)"
  by (simp add: p2p_node_initialize_def)

lemma on_node_keeps_uninitialized:
  "\<not> initialized st p \<Longrightarrow> \<not> initialized (snd (on_node st q r f)) p"
  by (auto simp: initialized_def on_node_def split: option.splits if_splits)

lemma call_keeps_uninitialized:
  assumes "\<not> initialized st p" and "c \<noteq> Initialize"
  shows "\<not> initialized (snd (call stk st q c)) p"
  using assms
  by (cases c)
    (simp_all add: on_node_keeps_uninitialized p2p_node_start_listening_def
      p2p_node_join_room_def p2p_node_send_message_def p2p_send_history_sync_def
      p2p_get_peer_id_def)

lemma initialize_initializes:
  assumes "\<not> initialized st p" and "initialized (snd (p2p_node_initialize stk st q)) p"
  shows "q = p \<and> fst (p2p_node_initialize stk st q) = True"
  using assms
  by (auto simp: initialized_def p2p_node_initialize_def split: option.splits if_splits)

lemma only_initialize_initializes:
  assumes "\<not> initialized st p" and "initialized (snd (call stk st q c)) p"
  shows "q = p \<and> c = Initialize \<and> fst (call stk st q c) = Flag True"
proof (cases "c = Initialize")
  case True
  with assms initialize_initializes [of st p stk q] show ?thesis
    by auto
next
  case False
  with assms call_keeps_uninitialized [of st p c stk q] show ?thesis
    by simp
qed


lemma create_keeps_uninitialized:
  "\<not> initialized st p \<Longrightarrow> \<not> initialized (snd (p2p_node_create st)) p"
  by (simp add: initialized_def p2p_node_create_def)

lemma destroy_keeps_uninitialized:
  "\<not> initialized st p \<Longrightarrow> \<not> initialized (p2p_node_destroy st q) p"
  by (simp add: initialized_def p2p_node_destroy_def)

lemma register_keeps_nodes: "nodes (register r st) = nodes st"
  by (cases r) (simp_all add: p2p_set_message_callback_def p2p_set_peer_callback_def)

lemma register_keeps_next: "next_node (register r st) = next_node st"
  by (cases r) (simp_all add: p2p_set_message_callback_def p2p_set_peer_callback_def)

lemma register_keeps_initialized: "initialized (register r st) p = initialized st p"
  by (simp add: initialized_def register_keeps_nodes)

lemma step_initializes:
  assumes "\<not> initialized st p" and "initialized (snd (step stk st e)) p"
  shows "e = NodeCall p Initialize \<and> fst (step stk st e) = Returned (Flag True)"
proof (cases e)
  case Create
  with assms create_keeps_uninitialized [of st p] show ?thesis
    by simp
next
  case (Destroy q)
  with assms destroy_keeps_uninitialized [of st p q] show ?thesis
    by simp
next
  case (NodeCall q c)
  with assms only_initialize_initializes [of st p stk q c] show ?thesis
    by auto
next
  case (Register r)
  with assms show ?thesis
    by (simp add: register_keeps_initialized)
qed

lemma run_initializes:
  "initialized (snd (run stk st es)) p
     \<Longrightarrow> initialized st p \<or> initialize_succeeded (fst (run stk st es)) p"
proof (induction es arbitrary: st)
  case Nil
  then show ?case by simp
next
  case (Cons e es)
  from Cons.prems have "initialized (snd (run stk (snd (step stk st e)) es)) p"
    by simp
  then have "initialized (snd (step stk st e)) p
      \<or> initialize_succeeded (fst (run stk (snd (step stk st e)) es)) p"
    by (rule Cons.IH)
  then show ?case
  proof
    assume now: "initialized (snd (step stk st e)) p"
    show ?thesis
    proof (cases "initialized st p")
      case True
      then show ?thesis by simp
    next
      case False
      from step_initializes [OF False now] show ?thesis
        by (auto simp: initialize_succeeded_def)
    qed
  next
    assume "initialize_succeeded (fst (run stk (snd (step stk st e)) es)) p"
    then show ?thesis
      by (simp add: initialize_succeeded_def)
  qed
qed

lemma initial_not_initialized: "\<not> initialized initial_process p"
  by (simp add: initialized_def initial_process_def)

lemma on_node_keeps_dead:
  "nodes st p = None \<Longrightarrow> nodes (snd (on_node st q r f)) p = None"
  by (auto simp: on_node_def split: option.splits)

lemma on_node_keeps_next: "next_node (snd (on_node st q r f)) = next_node st"
  by (simp add: on_node_def split: option.splits)

lemma call_keeps_dead:
  "nodes st p = None \<Longrightarrow> nodes (snd (call stk st q c)) p = None"
  by (cases c)
    (auto simp: on_node_keeps_dead p2p_node_start_listening_def p2p_node_join_room_def
      p2p_node_send_message_def p2p_send_history_sync_def p2p_get_peer_id_def
      p2p_node_initialize_def split: option.splits)

lemma call_keeps_next: "next_node (snd (call stk st q c)) = next_node st"
  by (cases c)
    (simp_all add: on_node_keeps_next p2p_node_start_listening_def p2p_node_join_room_def
      p2p_node_send_message_def p2p_send_history_sync_def p2p_get_peer_id_def
      p2p_node_initialize_def split: option.splits)

lemma step_next_grows: "p < next_node st \<Longrightarrow> p < next_node (snd (step stk st e))"
  by (cases e)
    (simp_all add: p2p_node_create_def p2p_node_destroy_def call_keeps_next
      register_keeps_next)

lemma step_keeps_dead:
  assumes "nodes st p = None" and "p < next_node st"
  shows "nodes (snd (step stk st e)) p = None"
  using assms
  by (cases e)
    (simp_all add: p2p_node_create_def p2p_node_destroy_def call_keeps_dead
      register_keeps_nodes)

lemma run_keeps_dead:
  "nodes st p = None \<Longrightarrow> p < next_node st \<Longrightarrow> nodes (snd (run stk st es)) p = None"
proof (induction es arbitrary: st)
  case Nil
  then show ?case by simp
next
  case (Cons e es)
  from Cons.prems have "nodes (snd (step stk st e)) p = None"
    by (rule step_keeps_dead)
  moreover from Cons.prems have "p < next_node (snd (step stk st e))"
    by (simp add: step_next_grows)
  ultimately show ?case
    by (simp add: Cons.IH)
qed

lemma run_destroy_kills:
  "p < next_node st \<Longrightarrow> (Destroy p, Destroyed) \<in> set (fst (run stk st es))
     \<Longrightarrow> nodes (snd (run stk st es)) p = None"
proof (induction es arbitrary: st)
  case Nil
  then show ?case by simp
next
  case (Cons e es)
  have later: "p < next_node (snd (step stk st e))"
    using Cons.prems(1) by (rule step_next_grows)
  show ?case
  proof (cases "e = Destroy p")
    case True
    then have "nodes (snd (step stk st e)) p = None"
      by (simp add: p2p_node_destroy_def)
    with later show ?thesis
      by (simp add: run_keeps_dead)
  next
    case False
    with Cons.prems(2) have "(Destroy p, Destroyed) \<in> set (fst (run stk (snd (step stk st e)) es))"
      by auto
    with later show ?thesis
      by (simp add: Cons.IH)
  qed
qed

lemma step_created:
  "fst (step stk st e) = Created p \<Longrightarrow> p < next_node (snd (step stk st e))"
  by (cases e) (auto simp: p2p_node_create_def)

lemma run_destroyed_dead:
  "destroyed (fst (run stk st es)) p \<Longrightarrow> nodes (snd (run stk st es)) p = None"
proof (induction es arbitrary: st)
  case Nil
  then show ?case by simp
next
  case (Cons e es)
  from Cons.prems consider
    (here) "fst (step stk st e) = Created p"
      "(Destroy p, Destroyed) \<in> set (fst (run stk (snd (step stk st e)) es))"
    | (later) "destroyed (fst (run stk (snd (step stk st e)) es)) p"
    by auto
  then show ?case
  proof cases
    case here
    from here(1) have "p < next_node (snd (step stk st e))"
      by (rule step_created)
    then show ?thesis
      using here(2) by (simp add: run_destroy_kills)
  next
    case later
    then show ?thesis
      by (simp add: Cons.IH)
  qed
qed

lemma dead_node_rejects:
  assumes "nodes st p = None"
  shows "call stk st p c = (failure c, st)"
proof (cases "c = Initialize")
  case True
  with assms show ?thesis
    by (simp add: initialize_rejects_dead)
next
  case False
  moreover from assms have "\<not> initialized st p"
    by (simp add: initialized_def)
  ultimately show ?thesis
    by (rule call_rejects)
qed

text \<open>
  C3. Take any stack, any session, and the state it ends in. A call of
  \<^verbatim>\<open>p2p_node_start_listening\<close>, \<^verbatim>\<open>p2p_node_join_room\<close>, \<^verbatim>\<open>p2p_node_send_message\<close>,
  \<^verbatim>\<open>p2p_send_history_sync\<close> or \<^verbatim>\<open>p2p_get_peer_id\<close> on an address on which
  \<^verbatim>\<open>p2p_node_initialize\<close> has not succeeded during the session returns its failure value,
  \<^verbatim>\<open>false\<close> or null. (For \<^verbatim>\<open>p2p_node_initialize\<close> this case does not arise: the call
  is the initialization.) A call of any of the six operations, \<^verbatim>\<open>p2p_node_initialize\<close>
  included, on a node that was destroyed at any earlier point of the session returns its
  failure value. In both cases the call leaves the state as it was.
\<close>

theorem node_calls_rejected:
  "(c \<noteq> Initialize \<longrightarrow> \<not> initialize_succeeded (fst (session stk es)) p
      \<longrightarrow> call stk (snd (session stk es)) p c = (failure c, snd (session stk es)))
   \<and> (destroyed (fst (session stk es)) p
      \<longrightarrow> call stk (snd (session stk es)) p c = (failure c, snd (session stk es)))
   \<and> rejected (failure c)"
proof (intro conjI impI)
  assume other: "c \<noteq> Initialize"
    and never: "\<not> initialize_succeeded (fst (session stk es)) p"
  from never have "\<not> initialized (snd (session stk es)) p"
    using run_initializes [of stk initial_process es p] initial_not_initialized [of p]
    by (auto simp: session_def)
  with other show "call stk (snd (session stk es)) p c = (failure c, snd (session stk es))"
    by (rule call_rejects)
next
  assume "destroyed (fst (session stk es)) p"
  then have "nodes (snd (session stk es)) p = None"
    by (simp add: session_def run_destroyed_dead)
  then show "call stk (snd (session stk es)) p c = (failure c, snd (session stk es))"
    by (rule dead_node_rejects)
next
  show "rejected (failure c)"
    by (cases c) simp_all
qed

theorem node_calls_rejected_witness:
  "StartListening 8080 \<noteq> Initialize
   \<and> \<not> initialize_succeeded (fst (session always_up joined_early)) 1
   \<and> call always_up (snd (session always_up joined_early)) 1 (StartListening 8080) =
       (Flag False, snd (session always_up joined_early))
   \<and> destroyed (fst (session always_up ended)) 1
   \<and> call always_up (snd (session always_up ended)) 1 Initialize =
       (Flag False, snd (session always_up ended))
   \<and> call always_up (snd (session always_up ended)) 1 GetPeerId =
       (Str None, snd (session always_up ended))
   \<and> fst (call always_up (snd (session always_up started)) 1 (StartListening 8080)) = Flag True"
proof -
  have never: "\<not> initialize_succeeded (fst (session always_up joined_early)) 1"
    by (simp add: initialize_succeeded_def session_def joined_early_def initial_process_def
        p2p_node_create_def p2p_node_join_room_def on_node_def)
  have gone: "destroyed (fst (session always_up ended)) 1"
    by (simp add: session_def ended_def initial_process_def p2p_node_create_def)
  have early:
    "call always_up (snd (session always_up joined_early)) 1 (StartListening 8080) =
       (Flag False, snd (session always_up joined_early))"
    using never node_calls_rejected [where c = "StartListening 8080" and stk = always_up
        and es = joined_early and p = 1]
    by simp
  have late:
    "call always_up (snd (session always_up ended)) 1 Initialize =
       (Flag False, snd (session always_up ended))"
    "call always_up (snd (session always_up ended)) 1 GetPeerId =
       (Str None, snd (session always_up ended))"
    using gone node_calls_rejected [where c = Initialize and stk = always_up
        and es = ended and p = 1]
      node_calls_rejected [where c = GetPeerId and stk = always_up and es = ended and p = 1]
    by simp_all
  have live: "fst (call always_up (snd (session always_up started)) 1 (StartListening 8080))
      = Flag True"
    by (simp add: session_def started_def initial_process_def p2p_node_create_def
        p2p_node_initialize_def p2p_node_start_listening_def on_node_def always_up_def)
  from never gone early late live show ?thesis
    by simp
qed

lemma on_node_keeps_callbacks:
  "message_callback (snd (on_node st q r f)) = message_callback st"
  "peer_callback (snd (on_node st q r f)) = peer_callback st"
  by (simp_all add: on_node_def split: option.splits)

lemma call_keeps_callbacks:
  "message_callback (snd (call stk st q c)) = message_callback st"
  "peer_callback (snd (call stk st q c)) = peer_callback st"
  by (cases c;
      simp add: on_node_keeps_callbacks p2p_node_start_listening_def p2p_node_join_room_def
        p2p_node_send_message_def p2p_send_history_sync_def p2p_get_peer_id_def
        p2p_node_initialize_def split: option.splits)+

lemma step_message_handlers:
  "message_handlers (snd (step stk st e)) =
     (case e of Register (SetMessage h) \<Rightarrow> [h] | _ \<Rightarrow> message_handlers st)"
proof (cases e)
  case (Register r)
  then show ?thesis
    by (cases r)
      (simp_all add: message_handlers_def p2p_set_message_callback_def
        p2p_set_peer_callback_def)
qed (simp_all add: message_handlers_def call_keeps_callbacks p2p_node_create_def
    p2p_node_destroy_def)

lemma step_peer_handlers:
  "peer_handlers (snd (step stk st e)) =
     (case e of Register (SetPeer h) \<Rightarrow> [h] | _ \<Rightarrow> peer_handlers st)"
proof (cases e)
  case (Register r)
  then show ?thesis
    by (cases r)
      (simp_all add: peer_handlers_def p2p_set_message_callback_def
        p2p_set_peer_callback_def)
qed (simp_all add: peer_handlers_def call_keeps_callbacks p2p_node_create_def
    p2p_node_destroy_def)

text \<open>
  C7. On the header: the declared functions are the twelve listed and no other, and
  those that concern callbacks, by a parameter or return type or by their name, are the
  two \<open>set\<close> functions, so that none unregisters or reads back a callback. Each of the
  two has the callback as its only parameter, hence no node handle, and each callback
  type has one of them; the peer callback receives a string and a boolean. On the state
  behind the interface: there is one slot of each kind, so that at most one handler of a
  kind is registered at any time and exactly the registered one after a registration;
  registering touches no node; and whatever is called on whatever node, the handlers of
  a kind stay as they are unless the call is a registration of that kind.
\<close>

theorem callbacks_are_process_wide:
  "map fn_name declared_functions =
     [''p2p_node_create'', ''p2p_node_destroy'', ''p2p_node_initialize'',
      ''p2p_node_start_listening'', ''p2p_node_join_room'', ''p2p_node_send_message'',
      ''p2p_set_message_callback'', ''p2p_set_peer_callback'', ''p2p_send_history_sync'',
      ''p2p_get_peer_id'', ''p2p_free_string'', ''p2p_init_logging'']
   \<and> names_of (\<lambda>f. takes is_callback f \<or> returns is_callback f
                  \<or> has_word ''callback'' (fn_name f)) =
     [''p2p_set_message_callback'', ''p2p_set_peer_callback'']
   \<and> map_option fn_params (lookup_fn ''p2p_set_message_callback'') =
     Some [(''callback'', TNamed ''MessageCallback'')]
   \<and> map_option fn_params (lookup_fn ''p2p_set_peer_callback'') =
     Some [(''callback'', TNamed ''PeerCallback'')]
   \<and> names_of (takes (\<lambda>t. t = TNamed ''MessageCallback'')) = [''p2p_set_message_callback'']
   \<and> names_of (takes (\<lambda>t. t = TNamed ''PeerCallback'')) = [''p2p_set_peer_callback'']
   \<and> names_of (\<lambda>f. takes is_callback f \<and> takes is_node_ptr f) = []
   \<and> fnptr_typedef header ''MessageCallback'' =
       Some (TVoid, [TPtr (TConst (TStruct ''P2PMessage''))])
   \<and> fnptr_typedef header ''PeerCallback'' = Some (TVoid, [TPtr (TConst TChar), TBool])
   \<and> length (message_handlers st) \<le> 1
   \<and> length (peer_handlers st) \<le> 1
   \<and> message_handlers (p2p_set_message_callback f st) = [f]
   \<and> peer_handlers (p2p_set_peer_callback g st) = [g]
   \<and> nodes (p2p_set_message_callback f st) = nodes st
   \<and> nodes (p2p_set_peer_callback g st) = nodes st
   \<and> message_handlers (snd (step stk st e)) =
       (case e of Register (SetMessage h) \<Rightarrow> [h] | _ \<Rightarrow> message_handlers st)
   \<and> peer_handlers (snd (step stk st e)) =
       (case e of Register (SetPeer h) \<Rightarrow> [h] | _ \<Rightarrow> peer_handlers st)"
proof -
  have declared:
    "map fn_name declared_functions =
     [''p2p_node_create'', ''p2p_node_destroy'', ''p2p_node_initialize'',
      ''p2p_node_start_listening'', ''p2p_node_join_room'', ''p2p_node_send_message'',
      ''p2p_set_message_callback'', ''p2p_set_peer_callback'', ''p2p_send_history_sync'',
      ''p2p_get_peer_id'', ''p2p_free_string'', ''p2p_init_logging'']"
    by (simp add: declared_functions_eq)
  have concerned:
    "names_of (\<lambda>f. takes is_callback f \<or> returns is_callback f
                  \<or> has_word ''callback'' (fn_name f)) =
     [''p2p_set_message_callback'', ''p2p_set_peer_callback'']"
    by (simp add: names_of_def takes_def returns_def param_types_def declared_functions_eq
        is_callback_MessageCallback is_callback_PeerCallback)
  have setters:
    "map_option fn_params (lookup_fn ''p2p_set_message_callback'') =
       Some [(''callback'', TNamed ''MessageCallback'')]"
    "map_option fn_params (lookup_fn ''p2p_set_peer_callback'') =
       Some [(''callback'', TNamed ''PeerCallback'')]"
    "names_of (takes (\<lambda>t. t = TNamed ''MessageCallback'')) = [''p2p_set_message_callback'']"
    "names_of (takes (\<lambda>t. t = TNamed ''PeerCallback'')) = [''p2p_set_peer_callback'']"
    "names_of (\<lambda>f. takes is_callback f \<and> takes is_node_ptr f) = []"
    by (simp_all add: lookup_fn_def names_of_def takes_def param_types_def
        declared_functions_eq is_callback_MessageCallback is_callback_PeerCallback)
  have types:
    "fnptr_typedef header ''MessageCallback'' =
       Some (TVoid, [TPtr (TConst (TStruct ''P2PMessage''))])"
    "fnptr_typedef header ''PeerCallback'' = Some (TVoid, [TPtr (TConst TChar), TBool])"
    by (simp_all add: header_def)
  have slots: "length (message_handlers st) \<le> 1" "length (peer_handlers st) \<le> 1"
    "message_handlers (p2p_set_message_callback f st) = [f]"
    "peer_handlers (p2p_set_peer_callback g st) = [g]"
    "nodes (p2p_set_message_callback f st) = nodes st"
    "nodes (p2p_set_peer_callback g st) = nodes st"
    by (simp_all add: message_handlers_def peer_handlers_def p2p_set_message_callback_def
        p2p_set_peer_callback_def split: option.splits)
  from declared concerned setters types slots
    step_message_handlers [of stk st e] step_peer_handlers [of stk st e]
  show ?thesis
    by (intro conjI)
qed

lemma register_all_message:
  "message_handlers (register_all rs st) =
     (case last_message rs of None \<Rightarrow> message_handlers st | Some g \<Rightarrow> [g])"
proof (induction rs arbitrary: st)
  case Nil
  show ?case by simp
next
  case (Cons r rs)
  show ?case
  proof (cases r)
    case (SetMessage f)
    have "message_handlers (p2p_set_message_callback f st) = [f]"
      by (simp add: message_handlers_def p2p_set_message_callback_def)
    with SetMessage show ?thesis
      by (simp add: Cons.IH split: option.splits)
  next
    case (SetPeer f)
    have "message_handlers (p2p_set_peer_callback f st) = message_handlers st"
      by (simp add: message_handlers_def p2p_set_peer_callback_def)
    with SetPeer show ?thesis
      by (simp add: Cons.IH split: option.splits)
  qed
qed

lemma register_all_peer:
  "peer_handlers (register_all rs st) =
     (case last_peer rs of None \<Rightarrow> peer_handlers st | Some g \<Rightarrow> [g])"
proof (induction rs arbitrary: st)
  case Nil
  show ?case by simp
next
  case (Cons r rs)
  show ?case
  proof (cases r)
    case (SetMessage f)
    have "peer_handlers (p2p_set_message_callback f st) = peer_handlers st"
      by (simp add: peer_handlers_def p2p_set_message_callback_def)
    with SetMessage show ?thesis
      by (simp add: Cons.IH split: option.splits)
  next
    case (SetPeer f)
    have "peer_handlers (p2p_set_peer_callback f st) = [f]"
      by (simp add: peer_handlers_def p2p_set_peer_callback_def)
    with SetPeer show ?thesis
      by (simp add: Cons.IH split: option.splits)
  qed
qed

lemma register_all_append:
  "register_all (xs @ ys) st = register_all ys (register_all xs st)"
  by (induction xs arbitrary: st) simp_all

text \<open>
  C4. After \<^verbatim>\<open>p2p_set_message_callback(f)\<close> and then \<^verbatim>\<open>p2p_set_message_callback(g)\<close>,
  a message is delivered to \<open>g\<close> alone, and likewise for \<^verbatim>\<open>p2p_set_peer_callback\<close>. In
  general, after any sequence of registration calls of both kinds, the handlers of each
  kind are the callback of the last registration of that kind and no other (or, when the
  sequence has none of that kind, what was registered before); registering one kind
  leaves the other alone.
\<close>

theorem registration_replaces:
  "message_handlers (p2p_set_message_callback g (p2p_set_message_callback f st)) = [g]
   \<and> peer_handlers (p2p_set_peer_callback g' (p2p_set_peer_callback f' st)) = [g']
   \<and> message_handlers (register_all rs st) =
       (case last_message rs of None \<Rightarrow> message_handlers st | Some h \<Rightarrow> [h])
   \<and> peer_handlers (register_all rs st) =
       (case last_peer rs of None \<Rightarrow> peer_handlers st | Some h \<Rightarrow> [h])
   \<and> message_handlers (register_all (rs @ [SetMessage g]) st) = [g]
   \<and> peer_handlers (register_all (rs @ [SetPeer g']) st) = [g']
   \<and> peer_handlers (p2p_set_message_callback g st) = peer_handlers st
   \<and> message_handlers (p2p_set_peer_callback g' st) = message_handlers st"
proof -
  have two: "message_handlers (p2p_set_message_callback g (p2p_set_message_callback f st)) = [g]"
    "peer_handlers (p2p_set_peer_callback g' (p2p_set_peer_callback f' st)) = [g']"
    by (simp_all add: message_handlers_def peer_handlers_def p2p_set_message_callback_def
        p2p_set_peer_callback_def)
  have last: "message_handlers (register_all (rs @ [SetMessage g]) st) = [g]"
    "peer_handlers (register_all (rs @ [SetPeer g']) st) = [g']"
    by (simp_all add: register_all_append message_handlers_def peer_handlers_def
        p2p_set_message_callback_def p2p_set_peer_callback_def)
  have apart: "peer_handlers (p2p_set_message_callback g st) = peer_handlers st"
    "message_handlers (p2p_set_peer_callback g' st) = message_handlers st"
    by (simp_all add: message_handlers_def peer_handlers_def p2p_set_message_callback_def
        p2p_set_peer_callback_def)
  show ?thesis
    using two last apart register_all_message [of rs st] register_all_peer [of rs st]
    by (intro conjI)
qed

end
